theory Spec2Isabelle
  imports Main
begin

section \<open>Strings as the program uses them\<close>

text \<open>
  The module \<^verbatim>\<open>plugin/clang/utils.py\<close> works on Python strings. A string is modelled as a
  \<^typ>\<open>string\<close>; a \<^typ>\<open>char\<close> stands for a code point below 256. The functions of this section
  are the \<^verbatim>\<open>str\<close> methods the module calls.
\<close>

text \<open>The characters \<^verbatim>\<open>str.strip()\<close> removes: the code points below 256 for which
  \<^verbatim>\<open>str.isspace()\<close> holds (tab, line feed, vertical tab, form feed, carriage return,
  the separators 0x1C to 0x1F, space, NEL and the no-break space).\<close>

definition is_space :: "char \<Rightarrow> bool" where
  "is_space c = (c \<in> {CHR 0x09, CHR 0x0A, CHR 0x0B, CHR 0x0C, CHR 0x0D,
                       CHR 0x1C, CHR 0x1D, CHR 0x1E, CHR 0x1F, CHR 0x20, CHR 0x85, CHR 0xA0})"

text \<open>\<^verbatim>\<open>s.strip()\<close>\<close>

definition strip :: "string \<Rightarrow> string" where
  "strip s = rev (dropWhile is_space (rev (dropWhile is_space s)))"

text \<open>\<^verbatim>\<open>s.startswith(p)\<close> and \<^verbatim>\<open>s.endswith(p)\<close>\<close>

definition startswith :: "string \<Rightarrow> string \<Rightarrow> bool" where
  "startswith s p = (take (length p) s = p)"

definition endswith :: "string \<Rightarrow> string \<Rightarrow> bool" where
  "endswith s p = startswith (rev s) (rev p)"

text \<open>\<^verbatim>\<open>s.split(c)\<close> for a one-character separator: one more piece than separators.\<close>

fun split_on :: "char \<Rightarrow> string \<Rightarrow> string list" where
  "split_on c [] = [[]]"
| "split_on c (x # xs) =
     (if x = c then [] # split_on c xs
      else (case split_on c xs of
              [] \<Rightarrow> [[x]]
            | l # ls \<Rightarrow> (x # l) # ls))"

text \<open>\<^verbatim>\<open>sep.join(pieces)\<close>\<close>

fun join_str :: "string \<Rightarrow> string list \<Rightarrow> string" where
  "join_str sep [] = []"
| "join_str sep [x] = x"
| "join_str sep (x # y # ys) = x @ sep @ join_str sep (y # ys)"


section \<open>cleanup\_comment\<close>

text \<open>
  \<^verbatim>\<open>
  lines = raw_comment.split('\n')
  clean_lines = []
  prev_line = ''
  is_brief_comment = False
  for line in lines:
      clean = line.strip()
      if clean.startswith('/'):
          clean = clean[3:]
      elif clean.startswith('*'):
          clean = clean[2:]
      clean = line[3:].strip()
      prev_line = clean
      if clean.startswith('@brief') or clean.startswith('/brief'):
          is_brief_comment = True
          continue
      if clean == '':
          is_brief_comment = False
      if clean == '' and prev_line == '':
          continue
      if is_brief_comment:
          continue
      clean_lines.append(clean)
  return '<br>'.join(clean_lines)
  \<close>
  The loop is a recursion over the lines that carries the three variables the body updates:
  \<open>clean_lines\<close>, \<open>prev_line\<close> and \<open>is_brief_comment\<close>. Every assignment of the body is a
  \<open>let\<close>, in the order of the source, the overwritten value of \<open>clean\<close> included.
\<close>

fun cleanup_loop :: "string list \<Rightarrow> string list \<Rightarrow> string \<Rightarrow> bool \<Rightarrow> string list" where
  "cleanup_loop [] clean_lines prev_line is_brief_comment = clean_lines"
| "cleanup_loop (line # lines) clean_lines prev_line is_brief_comment =
     (let clean = strip line;
          clean = (if startswith clean ''/'' then drop 3 clean
                   else if startswith clean ''*'' then drop 2 clean
                   else clean);
          clean = strip (drop 3 line);
          prev_line = clean
      in if startswith clean ''@brief'' \<or> startswith clean ''/brief''
         then cleanup_loop lines clean_lines prev_line True
         else
           (let is_brief_comment = (if clean = [] then False else is_brief_comment)
            in if clean = [] \<and> prev_line = []
               then cleanup_loop lines clean_lines prev_line is_brief_comment
               else if is_brief_comment
               then cleanup_loop lines clean_lines prev_line is_brief_comment
               else cleanup_loop lines (clean_lines @ [clean]) prev_line is_brief_comment))"

text \<open>The list \<open>clean_lines\<close> when the loop ends.\<close>

definition cleanup_lines :: "string \<Rightarrow> string list" where
  "cleanup_lines raw_comment = cleanup_loop (split_on (CHR 0x0A) raw_comment) [] [] False"

definition cleanup_comment :: "string \<Rightarrow> string" where
  "cleanup_comment raw_comment = join_str ''<br>'' (cleanup_lines raw_comment)"

text \<open>\<^verbatim>\<open>s.replace(old, new)\<close>: every occurrence of \<open>old\<close>, found from the left without
  overlap, becomes \<open>new\<close>; an empty \<open>old\<close> puts \<open>new\<close> around every character.\<close>

function str_replace :: "string \<Rightarrow> string \<Rightarrow> string \<Rightarrow> string" where
  "str_replace old new s =
     (if old = [] then new @ concat (map (\<lambda>c. c # new) s)
      else if s = [] then []
      else if startswith s old then new @ str_replace old new (drop (length old) s)
      else hd s # str_replace old new (tl s))"
  by pat_completeness auto
termination
  by (relation "measure (\<lambda>(old, new, s). length s)") auto

declare str_replace.simps [simp del]

text \<open>\<^verbatim>\<open>str(n)\<close> for an integer: its decimal digits, with a minus sign below zero.\<close>

definition digit_char :: "nat \<Rightarrow> char" where
  "digit_char d = char_of (48 + d)"

function str_nat :: "nat \<Rightarrow> string" where
  "str_nat n = (if n < 10 then [digit_char n] else str_nat (n div 10) @ [digit_char (n mod 10)])"
  by pat_completeness auto
termination
  by (relation "measure (\<lambda>n. n)") auto

declare str_nat.simps [simp del]

definition str_int :: "int \<Rightarrow> string" where
  "str_int i = (if i < 0 then CHR ''-'' # str_nat (nat (- i)) else str_nat (nat i))"

section \<open>link\_from\_location\<close>

text \<open>
  The cursor location of the compiler binding, as far as the module reads it: a location has
  a file (or none), a line and a column; a file has a name. An absent location or file is
  \<open>None\<close>, which is what Python's truth test \<^verbatim>\<open>location and location.file\<close> rejects.
  The fields carry the object's name as a prefix, since \<open>file\<close> and \<open>name\<close> are also local
  variables of the search below.
\<close>

record cindex_file =
  file_name :: string

record source_location =
  loc_file :: "cindex_file option"
  loc_line :: int
  loc_column :: int

text \<open>
  \<^verbatim>\<open>
  result = ""
  if location and location.file and location.file.name:
      result += "<a href=\""
      result += location.file.name
      result += ":"
      result += str(location.line)
      result += ":"
      result += str(location.column)
      result += "\">" + text + "</a>"
  else:
      result += text
  return result
  \<close>
\<close>

definition has_named_file :: "source_location option \<Rightarrow> bool" where
  "has_named_file location =
     (case location of
        None \<Rightarrow> False
      | Some l \<Rightarrow> (case loc_file l of None \<Rightarrow> False | Some f \<Rightarrow> file_name f \<noteq> []))"

definition link_from_location :: "source_location option \<Rightarrow> string \<Rightarrow> string" where
  "link_from_location location text =
     (let result = [] in
      case location of
        None \<Rightarrow> result @ text
      | Some l \<Rightarrow>
          (case loc_file l of
             None \<Rightarrow> result @ text
           | Some f \<Rightarrow>
               if file_name f \<noteq> [] then
                 (let result = result @ ''<a href='' @ [CHR 0x22];
                      result = result @ file_name f;
                      result = result @ '':'';
                      result = result @ str_int (loc_line l);
                      result = result @ '':'';
                      result = result @ str_int (loc_column l);
                      result = result @ ([CHR 0x22] @ ''>'' @ text @ ''</a>'')
                  in result)
               else result @ text))"

section \<open>Paths\<close>

text \<open>
  \<^verbatim>\<open>os.path\<close> is one of two library modules, chosen by the operating system. The module
  for POSIX systems is written out below, function by function, from the standard library's
  \<^verbatim>\<open>posixpath\<close>; the module for Windows, \<^verbatim>\<open>ntpath\<close>, is a parameter of the environment.
\<close>

record pathmod =
  p_join :: "string \<Rightarrow> string list \<Rightarrow> string"
  p_normpath :: "string \<Rightarrow> string"
  p_dirname :: "string \<Rightarrow> string"
  p_basename :: "string \<Rightarrow> string"

text \<open>\<^verbatim>\<open>posixpath.join(a, *p)\<close>: a component that starts with a slash replaces what came
  before; otherwise it is appended, after a slash unless the path is empty or ends in one.\<close>

fun posix_join :: "string \<Rightarrow> string list \<Rightarrow> string" where
  "posix_join path [] = path"
| "posix_join path (b # p) =
     posix_join
       (if startswith b ''/'' then b
        else if path = [] \<or> endswith path ''/'' then path @ b
        else path @ ''/'' @ b) p"

text \<open>\<^verbatim>\<open>p.rfind('/') + 1\<close>: the length of \<open>p\<close> up to and including its last slash,
  0 when it has none.\<close>

definition after_last_sep :: "string \<Rightarrow> nat" where
  "after_last_sep p = length (dropWhile (\<lambda>c. c \<noteq> CHR ''/'') (rev p))"

text \<open>\<^verbatim>\<open>posixpath.dirname(p)\<close>: the part before the last slash, with its trailing slashes
  removed unless it consists of slashes only.\<close>

definition posix_dirname :: "string \<Rightarrow> string" where
  "posix_dirname p =
     (let i = after_last_sep p;
          head = take i p
      in if head \<noteq> [] \<and> head \<noteq> replicate (length head) (CHR ''/'')
         then rev (dropWhile (\<lambda>c. c = CHR ''/'') (rev head))
         else head)"

definition posix_basename :: "string \<Rightarrow> string" where
  "posix_basename p = drop (after_last_sep p) p"

text \<open>The loop of \<^verbatim>\<open>posixpath.normpath\<close> over the components: empty and \<open>.\<close> components
  are skipped, and \<open>..\<close> removes the component before it where there is one to remove
  (\<open>part\<close> is the loop variable \<open>comp\<close> of the library).\<close>

fun normpath_loop :: "nat \<Rightarrow> string list \<Rightarrow> string list \<Rightarrow> string list" where
  "normpath_loop initial_slashes [] new_comps = new_comps"
| "normpath_loop initial_slashes (part # comps) new_comps =
     (if part = [] \<or> part = ''.'' then normpath_loop initial_slashes comps new_comps
      else if part \<noteq> ''..'' \<or> (initial_slashes = 0 \<and> new_comps = [])
              \<or> (new_comps \<noteq> [] \<and> last new_comps = ''..'')
      then normpath_loop initial_slashes comps (new_comps @ [part])
      else if new_comps \<noteq> [] then normpath_loop initial_slashes comps (butlast new_comps)
      else normpath_loop initial_slashes comps new_comps)"

definition posix_normpath :: "string \<Rightarrow> string" where
  "posix_normpath path =
     (if path = [] then ''.''
      else
        (let initial_slashes =
               (if startswith path ''/'' then
                  (if startswith path ''//'' \<and> \<not> startswith path ''///'' then 2 else 1)
                else 0);
             comps = normpath_loop initial_slashes (split_on (CHR ''/'') path) [];
             path = join_str ''/'' comps;
             path = (if initial_slashes \<noteq> 0
                     then replicate initial_slashes (CHR ''/'') @ path else path)
         in if path = [] then ''.'' else path))"

definition posixpath :: pathmod where
  "posixpath = \<lparr>p_join = posix_join, p_normpath = posix_normpath,
                 p_dirname = posix_dirname, p_basename = posix_basename\<rparr>"

section \<open>The environment of the search\<close>

text \<open>
  What \<^verbatim>\<open>find_libclang_dir\<close> raises or lets through, as values. \<open>KeyError\<close> is the
  lookup of a platform the tables do not have, \<open>UnboundLocalError\<close> and \<open>TypeError\<close> are the
  reads of a variable no branch has set and of the \<open>None\<close> of \<^verbatim>\<open>dir_from_output\<close>; the
  others are what \<^verbatim>\<open>subprocess.check_output\<close> and \<^verbatim>\<open>decode\<close> raise.
\<close>

datatype error =
    KeyError string
  | UnboundLocalError
  | TypeError
  | CalledProcessError int
  | FileNotFoundError
  | UnicodeDecodeError

text \<open>
  Everything the search reads from outside the module:
  \<^item> \<open>system\<close>: the value of \<^verbatim>\<open>platform.system()\<close>;
  \<^item> \<open>CLANG_VERSION\<close>: \<^verbatim>\<open>settings_storage.SettingsStorage.CLANG_VERSION\<close>;
  \<^item> \<open>check_output\<close>: \<^verbatim>\<open>subprocess.check_output(argv, ...).decode('utf8')\<close>, the text the
    command prints, or the exception the call raises;
  \<^item> \<open>path_exists\<close>, \<open>path_isdir\<close>: \<^verbatim>\<open>path.exists\<close> and \<^verbatim>\<open>path.isdir\<close>;
  \<^item> \<open>ntpath\<close>: the \<^verbatim>\<open>os.path\<close> of Windows.
\<close>

record env =
  system :: string
  CLANG_VERSION :: string
  check_output :: "string list \<Rightarrow> error + string"
  path_exists :: "string \<Rightarrow> bool"
  path_isdir :: "string \<Rightarrow> bool"
  ntpath :: pathmod

definition os_path :: "env \<Rightarrow> pathmod" where
  "os_path e = (if system e = ''Windows'' then ntpath e else posixpath)"

text \<open>
  The records the module writes to its logger that tell what the search did, and the
  commands it ran, in the order they happen:
  \<^item> \<open>Searching file\<close>: \<^verbatim>\<open>log.debug(" searching for: '%s'", file)\<close>;
  \<^item> \<open>Invoked argv\<close>: the call of \<^verbatim>\<open>subprocess.check_output\<close>;
  \<^item> \<open>FoundLibrary path\<close>: \<^verbatim>\<open>log.info(" found libclang library file: '%s'", ...)\<close>;
  \<^item> \<open>CouldNotFind file\<close>: \<^verbatim>\<open>log.warning(" clang could not find '%s'", file)\<close>;
  \<^item> \<open>UsingUserProvided path\<close>: \<^verbatim>\<open>log.info(" using user-provided libclang: '%s'", ...)\<close>;
  \<^item> \<open>NoLibclangFound\<close>: \<^verbatim>\<open>log.error(" no libclang found at all")\<close>.
  The other debug records (platform, interpreter version, raw output) are left out.
\<close>

datatype event =
    Searching string
  | Invoked "string list"
  | FoundLibrary string
  | CouldNotFind string
  | UsingUserProvided string
  | NoLibclangFound

text \<open>The class attribute \<^verbatim>\<open>ClangUtils.libclang_name\<close> (\<open>None\<close> until a search sets it) and
  the events so far.\<close>

record state =
  libclang_name :: "string option"
  events :: "event list"

definition emit :: "event \<Rightarrow> state \<Rightarrow> state" where
  "emit ev st = st\<lparr>events := events st @ [ev]\<rparr>"

section \<open>ClangUtils\<close>

definition suffixes :: "(string \<times> string list) list" where
  "suffixes = [(''Windows'', [''.dll'', ''.lib'']),
               (''Linux'', [''.so'', ''.so.1'']),
               (''Darwin'', [''.dylib''])]"

definition possible_filenames :: "(string \<times> string list) list" where
  "possible_filenames = [(''Windows'', [''libclang'', ''clang'']),
                         (''Linux'', [''libclang-$version'', ''libclang'']),
                         (''Darwin'', [''libclang''])]"

text \<open>
  \<^verbatim>\<open>
  if platform.system() == "Darwin":
      folder_to_search = path.join(output, '..', '..')
      return folder_to_search
  elif platform.system() == "Windows":
      return path.normpath(output)
  elif platform.system() == "Linux":
      return path.normpath(path.dirname(output))
  return None
  \<close>
\<close>

definition dir_from_output :: "env \<Rightarrow> string \<Rightarrow> string option" where
  "dir_from_output e output =
     (if system e = ''Darwin'' then
        (let folder_to_search = p_join (os_path e) output [''..'', ''..'']
         in Some folder_to_search)
      else if system e = ''Windows'' then Some (p_normpath (os_path e) output)
      else if system e = ''Linux'' then
        Some (p_normpath (os_path e) (p_dirname (os_path e) output))
      else None)"

text \<open>
  \<^verbatim>\<open>
  if path.exists(libclang_path):
      return path.dirname(libclang_path)
  \<close>
\<close>

definition try_load_from_user_hint :: "env \<Rightarrow> string \<Rightarrow> string option" where
  "try_load_from_user_hint e libclang_path =
     (if path_exists e libclang_path then Some (p_dirname (os_path e) libclang_path)
      else None)"

text \<open>
  The body of the two loops of \<^verbatim>\<open>find_libclang_dir\<close>, for one \<open>suffix\<close> and one \<open>name\<close>:
  \<^verbatim>\<open>
  file = "{name}{suffix}".format(name=name, suffix=suffix)
  log.debug(" searching for: '%s'", file)
  if platform.system() == "Darwin":
      get_library_path_cmd = [clang_binary, "-print-file-name="]
  elif platform.system() == "Windows":
      get_library_path_cmd = [clang_binary, "-print-prog-name="]
      ...
  elif platform.system() == "Linux":
      file = file.replace("$version", version_str)
      get_library_path_cmd = [clang_binary, "-print-file-name={}".format(file)]
  output = subprocess.check_output(get_library_path_cmd, ...).decode('utf8').strip()
  if output:
      libclang_dir = ClangUtils.dir_from_output(output)
      if path.isdir(libclang_dir):
          full_libclang_path = path.join(libclang_dir, file)
          if path.exists(full_libclang_path):
              log.info(" found libclang library file: '%s'", full_libclang_path)
              ClangUtils.libclang_name = file
              return libclang_dir
  log.warning(" clang could not find '%s'", file)
  \<close>
  First the file and the command of a candidate. \<open>version_str\<close> is \<open>None\<close> while the variable
  is unbound, which it is off Linux; a platform none of the three branches names leaves
  \<open>get_library_path_cmd\<close> unbound.
\<close>

definition library_path_cmd ::
  "env \<Rightarrow> string \<Rightarrow> string option \<Rightarrow> string \<Rightarrow> error + (string \<times> string list)" where
  "library_path_cmd e clang_binary version_str file =
     (if system e = ''Darwin'' then Inr (file, [clang_binary, ''-print-file-name=''])
      else if system e = ''Windows'' then Inr (file, [clang_binary, ''-print-prog-name=''])
      else if system e = ''Linux'' then
        (case version_str of
           None \<Rightarrow> Inl UnboundLocalError
         | Some v \<Rightarrow>
             (let file = str_replace ''$version'' v file
              in Inr (file, [clang_binary, ''-print-file-name='' @ file])))
      else Inl UnboundLocalError)"

text \<open>The result of one pass through the body: \<open>Inl\<close> an exception, \<open>Inr (Some dir)\<close> the
  \<^verbatim>\<open>return libclang_dir\<close>, \<open>Inr None\<close> the end of the body, after which the loop goes on.\<close>

definition try_candidate ::
  "env \<Rightarrow> string \<Rightarrow> string option \<Rightarrow> string \<Rightarrow> string \<Rightarrow> state
     \<Rightarrow> (error + string option) \<times> state" where
  "try_candidate e clang_binary version_str suffix name st =
     (let file = name @ suffix;
          st = emit (Searching file) st
      in case library_path_cmd e clang_binary version_str file of
           Inl err \<Rightarrow> (Inl err, st)
         | Inr (file, get_library_path_cmd) \<Rightarrow>
             (let st = emit (Invoked get_library_path_cmd) st
              in case check_output e get_library_path_cmd of
                   Inl err \<Rightarrow> (Inl err, st)
                 | Inr text \<Rightarrow>
                     (let output = strip text
                      in if output \<noteq> [] then
                           (case dir_from_output e output of
                              None \<Rightarrow> (Inl TypeError, st)
                            | Some libclang_dir \<Rightarrow>
                                if path_isdir e libclang_dir then
                                  (let full_libclang_path =
                                         p_join (os_path e) libclang_dir [file]
                                   in if path_exists e full_libclang_path then
                                        (Inr (Some libclang_dir),
                                         (emit (FoundLibrary full_libclang_path) st)
                                           \<lparr>libclang_name := Some file\<rparr>)
                                      else (Inr None, emit (CouldNotFind file) st))
                                else (Inr None, emit (CouldNotFind file) st))
                         else (Inr None, emit (CouldNotFind file) st))))"

text \<open>\<^verbatim>\<open>for name in ClangUtils.possible_filenames[current_system]: ...\<close>\<close>

fun names_loop ::
  "env \<Rightarrow> string \<Rightarrow> string option \<Rightarrow> string \<Rightarrow> string list \<Rightarrow> state
     \<Rightarrow> (error + string option) \<times> state" where
  "names_loop e clang_binary version_str suffix [] st = (Inr None, st)"
| "names_loop e clang_binary version_str suffix (name # names) st =
     (case try_candidate e clang_binary version_str suffix name st of
        (Inl err, st') \<Rightarrow> (Inl err, st')
      | (Inr (Some libclang_dir), st') \<Rightarrow> (Inr (Some libclang_dir), st')
      | (Inr None, st') \<Rightarrow> names_loop e clang_binary version_str suffix names st')"

text \<open>\<^verbatim>\<open>for suffix in ClangUtils.suffixes[current_system]: ...\<close>, the list of suffixes already
  looked up; the names are looked up once per suffix, as the source does.\<close>

fun suffixes_loop ::
  "env \<Rightarrow> string \<Rightarrow> string option \<Rightarrow> string \<Rightarrow> string list \<Rightarrow> state
     \<Rightarrow> (error + string option) \<times> state" where
  "suffixes_loop e clang_binary version_str current_system [] st = (Inr None, st)"
| "suffixes_loop e clang_binary version_str current_system (suffix # rest) st =
     (case map_of possible_filenames current_system of
        None \<Rightarrow> (Inl (KeyError current_system), st)
      | Some names \<Rightarrow>
          (case names_loop e clang_binary version_str suffix names st of
             (Inl err, st') \<Rightarrow> (Inl err, st')
           | (Inr (Some libclang_dir), st') \<Rightarrow> (Inr (Some libclang_dir), st')
           | (Inr None, st') \<Rightarrow>
               suffixes_loop e clang_binary version_str current_system rest st'))"

text \<open>
  \<^verbatim>\<open>
  current_system = platform.system()
  if libclang_path:
      libclang_dir = ClangUtils.try_load_from_user_hint(libclang_path)
      if libclang_dir:
          ClangUtils.libclang_name = path.basename(libclang_path)
          log.info(" using user-provided libclang: '%s'", libclang_path)
          return libclang_dir
  if current_system == "Linux":
      version_str = settings_storage.SettingsStorage.CLANG_VERSION[:-2]
  for suffix in ClangUtils.suffixes[current_system]:
      for name in ClangUtils.possible_filenames[current_system]:
          ...
  log.error(" no libclang found at all")
  return None
  \<close>
  \<open>user_hint_dir\<close> is the value of \<open>libclang_dir\<close> when both tests of the first part pass:
  Python's \<^verbatim>\<open>if libclang_dir:\<close> rejects \<open>None\<close> and the empty string alike.
\<close>

text \<open>The variable \<open>version_str\<close> after the \<^verbatim>\<open>if current_system == "Linux"\<close>: the
  configured version without its last two characters (\<^verbatim>\<open>[:-2]\<close>), and unbound off Linux.\<close>

definition version_str_of :: "env \<Rightarrow> string option" where
  "version_str_of e =
     (if system e = ''Linux''
      then Some (take (length (CLANG_VERSION e) - 2) (CLANG_VERSION e))
      else None)"

definition user_hint_dir :: "env \<Rightarrow> string \<Rightarrow> string option" where
  "user_hint_dir e libclang_path =
     (if libclang_path \<noteq> [] then
        (case try_load_from_user_hint e libclang_path of
           None \<Rightarrow> None
         | Some libclang_dir \<Rightarrow> if libclang_dir \<noteq> [] then Some libclang_dir else None)
      else None)"

definition find_libclang_dir ::
  "env \<Rightarrow> string \<Rightarrow> string \<Rightarrow> state \<Rightarrow> (error + string option) \<times> state" where
  "find_libclang_dir e clang_binary libclang_path st =
     (let current_system = system e
      in case user_hint_dir e libclang_path of
           Some libclang_dir \<Rightarrow>
             (Inr (Some libclang_dir),
              emit (UsingUserProvided libclang_path)
                (st\<lparr>libclang_name := Some (p_basename (os_path e) libclang_path)\<rparr>))
         | None \<Rightarrow>
             (let version_str = version_str_of e
              in case map_of suffixes current_system of
                   None \<Rightarrow> (Inl (KeyError current_system), st)
                 | Some suffix_list \<Rightarrow>
                     (case suffixes_loop e clang_binary version_str current_system
                             suffix_list st of
                        (Inl err, st') \<Rightarrow> (Inl err, st')
                      | (Inr (Some libclang_dir), st') \<Rightarrow> (Inr (Some libclang_dir), st')
                      | (Inr None, st') \<Rightarrow> (Inr None, emit NoLibclangFound st'))))"

section \<open>Vocabulary of the statements\<close>

text \<open>
  The notions the properties below are stated in, each defined from the environment and the
  functions above. A candidate is a pair \<open>(suffix, name)\<close>; the candidates of a platform are
  the pairs of its two tables, the suffix varying slowest.
\<close>

definition candidates :: "env \<Rightarrow> (string \<times> string) list" where
  "candidates e =
     (case map_of suffixes (system e) of
        None \<Rightarrow> []
      | Some suffix_list \<Rightarrow>
          (case map_of possible_filenames (system e) of
             None \<Rightarrow> []
           | Some names \<Rightarrow> List.product suffix_list names))"

text \<open>The file a candidate stands for (after the substitution of the version on Linux) and
  the command that asks the compiler for it.\<close>

definition candidate_file :: "env \<Rightarrow> string \<times> string \<Rightarrow> string" where
  "candidate_file e c =
     (case library_path_cmd e [] (version_str_of e) (snd c @ fst c) of
        Inl err \<Rightarrow> snd c @ fst c
      | Inr (file, cmd) \<Rightarrow> file)"

definition candidate_cmd :: "env \<Rightarrow> string \<Rightarrow> string \<times> string \<Rightarrow> string list" where
  "candidate_cmd e clang_binary c =
     (case library_path_cmd e clang_binary (version_str_of e) (snd c @ fst c) of
        Inl err \<Rightarrow> []
      | Inr (file, cmd) \<Rightarrow> cmd)"

text \<open>The invocation of a candidate: the trimmed output of its command, or the exception.\<close>

definition invocation :: "env \<Rightarrow> string \<Rightarrow> string \<times> string \<Rightarrow> error + string" where
  "invocation e clang_binary c =
     (case check_output e (candidate_cmd e clang_binary c) of
        Inl err \<Rightarrow> Inl err
      | Inr text \<Rightarrow> Inr (strip text))"

text \<open>The directory derived from the output of a candidate, where there is one.\<close>

definition candidate_dir :: "env \<Rightarrow> string \<Rightarrow> string \<times> string \<Rightarrow> string option" where
  "candidate_dir e clang_binary c =
     (case invocation e clang_binary c of
        Inl err \<Rightarrow> None
      | Inr output \<Rightarrow> if output = [] then None else dir_from_output e output)"

definition candidate_path :: "env \<Rightarrow> string \<Rightarrow> string \<times> string \<Rightarrow> string" where
  "candidate_path e clang_binary c =
     (case candidate_dir e clang_binary c of
        None \<Rightarrow> []
      | Some libclang_dir \<Rightarrow> p_join (os_path e) libclang_dir [candidate_file e c])"

text \<open>A candidate verifies when its output is not empty, the derived directory is a
  directory and the file exists in it.\<close>

definition verifies :: "env \<Rightarrow> string \<Rightarrow> string \<times> string \<Rightarrow> bool" where
  "verifies e clang_binary c =
     (case candidate_dir e clang_binary c of
        None \<Rightarrow> False
      | Some libclang_dir \<Rightarrow>
          path_isdir e libclang_dir \<and> path_exists e (candidate_path e clang_binary c))"

text \<open>The invocation of a candidate returns (it raises nothing) and the candidate does not
  verify.\<close>

definition rejected :: "env \<Rightarrow> string \<Rightarrow> string \<times> string \<Rightarrow> bool" where
  "rejected e clang_binary c =
     (case invocation e clang_binary c of
        Inl err \<Rightarrow> False
      | Inr output \<Rightarrow> \<not> verifies e clang_binary c)"

text \<open>The events of a candidate up to its invocation, and those of a rejected one.\<close>

definition attempt_events :: "env \<Rightarrow> string \<Rightarrow> string \<times> string \<Rightarrow> event list" where
  "attempt_events e clang_binary c =
     [Searching (snd c @ fst c), Invoked (candidate_cmd e clang_binary c)]"

definition rejected_events :: "env \<Rightarrow> string \<Rightarrow> string \<times> string \<Rightarrow> event list" where
  "rejected_events e clang_binary c =
     attempt_events e clang_binary c @ [CouldNotFind (candidate_file e c)]"

text \<open>The platforms the two tables have.\<close>

definition supported :: "env \<Rightarrow> bool" where
  "supported e = (system e = ''Windows'' \<or> system e = ''Linux'' \<or> system e = ''Darwin'')"

text \<open>The two loops as one loop over the pairs.\<close>

fun search_pairs ::
  "env \<Rightarrow> string \<Rightarrow> (string \<times> string) list \<Rightarrow> state \<Rightarrow> (error + string option) \<times> state" where
  "search_pairs e clang_binary [] st = (Inr None, st)"
| "search_pairs e clang_binary (c # cs) st =
     (case try_candidate e clang_binary (version_str_of e) (fst c) (snd c) st of
        (Inl err, st') \<Rightarrow> (Inl err, st')
      | (Inr (Some libclang_dir), st') \<Rightarrow> (Inr (Some libclang_dir), st')
      | (Inr None, st') \<Rightarrow> search_pairs e clang_binary cs st')"


section \<open>Environments for the examples\<close>

text \<open>
  A test double of the environment: the platform, the configured version, a table from
  commands to what they print or raise (a command the table lacks is a missing executable),
  the files and the directories of the disk. The Windows path module is not used on the
  examples' platforms.
\<close>

definition mk_env ::
  "string \<Rightarrow> string \<Rightarrow> (string list \<times> (error + string)) list \<Rightarrow> string list \<Rightarrow> string list
     \<Rightarrow> env" where
  "mk_env sys version outputs files dirs =
     \<lparr>system = sys,
      CLANG_VERSION = version,
      check_output = (\<lambda>argv. case map_of outputs argv of
                                None \<Rightarrow> Inl FileNotFoundError
                              | Some r \<Rightarrow> r),
      path_exists = (\<lambda>p. p \<in> set files \<or> p \<in> set dirs),
      path_isdir = (\<lambda>p. p \<in> set dirs),
      ntpath = posixpath\<rparr>"

definition st0 :: state where
  "st0 = \<lparr>libclang_name = None, events = []\<rparr>"

text \<open>The command of a Linux candidate, for the compiler \<^verbatim>\<open>clang++\<close>.\<close>

definition print_file_name :: "string \<Rightarrow> string list" where
  "print_file_name file = [''clang++'', ''-print-file-name='' @ file]"

text \<open>One environment for each platform, with nothing on disk.\<close>

definition env_darwin :: env where
  "env_darwin = mk_env ''Darwin'' ''3.8.0'' [] [] []"

definition env_windows :: env where
  "env_windows = mk_env ''Windows'' ''3.8.0'' [] [] []"

definition env_linux :: env where
  "env_linux = mk_env ''Linux'' ''3.8.0'' [] [] []"

text \<open>A Linux machine where the compiler echoes the name of a library it does not have
  (as \<^verbatim>\<open>-print-file-name\<close> does), prints nothing for the second candidate, and has the
  third: the versioned library with the suffix \<^verbatim>\<open>.so.1\<close>.\<close>

definition env_deep :: env where
  "env_deep = mk_env ''Linux'' ''3.8.0''
     [(print_file_name ''libclang-3.8.so'', Inr (''libclang-3.8.so'' @ [CHR 0x0A])),
      (print_file_name ''libclang.so'', Inr []),
      (print_file_name ''libclang-3.8.so.1'',
         Inr (''/usr/lib/x86_64-linux-gnu/libclang-3.8.so.1'' @ [CHR 0x0A])),
      (print_file_name ''libclang.so.1'', Inr (''libclang.so.1'' @ [CHR 0x0A]))]
     [''/usr/lib/x86_64-linux-gnu/libclang-3.8.so.1'']
     [''.'', ''/usr/lib/x86_64-linux-gnu'']"

text \<open>A Linux machine where the command of the first candidate exits with status 1 and the
  second candidate is there.\<close>

definition env_raises :: env where
  "env_raises = mk_env ''Linux'' ''3.8.0''
     [(print_file_name ''libclang-3.8.so'', Inl (CalledProcessError 1)),
      (print_file_name ''libclang.so'',
         Inr (''/usr/lib/llvm-3.8/lib/libclang.so'' @ [CHR 0x0A]))]
     [''/usr/lib/llvm-3.8/lib/libclang.so'']
     [''/usr/lib/llvm-3.8/lib'']"

text \<open>A Linux machine where the command of the second candidate exits with status 1 and
  only the third candidate is there.\<close>

definition env_gap :: env where
  "env_gap = mk_env ''Linux'' ''3.8.0''
     [(print_file_name ''libclang-3.8.so'', Inr []),
      (print_file_name ''libclang.so'', Inl (CalledProcessError 1)),
      (print_file_name ''libclang-3.8.so.1'',
         Inr (''/usr/lib/x86_64-linux-gnu/libclang-3.8.so.1'' @ [CHR 0x0A])),
      (print_file_name ''libclang.so.1'', Inr [])]
     [''/usr/lib/x86_64-linux-gnu/libclang-3.8.so.1'']
     [''/usr/lib/x86_64-linux-gnu'']"

text \<open>Two Macs: one without the compiler executable, one whose compiler prints an empty
  line.\<close>

definition env_no_compiler :: env where
  "env_no_compiler = mk_env ''Darwin'' ''3.8.0'' [] [] []"

definition env_silent :: env where
  "env_silent = mk_env ''Darwin'' ''3.8.0''
     [([''clang++'', ''-print-file-name=''], Inr [CHR 0x0A])] [] []"

text \<open>A machine of a platform the tables do not have, with the library installed.\<close>

definition env_bsd :: env where
  "env_bsd = mk_env ''FreeBSD'' ''3.8.0'' [] [''/usr/local/llvm/lib/libclang.so''] []"

text \<open>A Linux machine without the compiler, with the library in the working directory.\<close>

definition env_cwd :: env where
  "env_cwd = mk_env ''Linux'' ''3.8.0'' [] [''libclang.so''] [''.'']"

text \<open>A Linux machine without the compiler, with two libraries installed.\<close>

definition env_two :: env where
  "env_two = mk_env ''Linux'' ''3.8.0'' []
     [''/opt/a/libclang.so'', ''/opt/b/libclang.so.1''] [''/opt/a'', ''/opt/b'']"

section \<open>Properties of cleanup\_comment\<close>

subsection \<open>Lines and separators\<close>













subsection \<open>The documented example\<close>

text \<open>
  Claim C3, as written: on the raw comment
  \<^verbatim>\<open>"/** @brief Does X.\n\n Full text here.\n\n More text.\n*/"\<close> the function drops the brief
  line and returns \<^verbatim>\<open>" Full text here.<br><br> More text."\<close>. It does not return that string.
\<close>

theorem cleanup_comment_example_counterexample:
  "cleanup_comment (''/** @brief Does X.'' @ [CHR 0x0A, CHR 0x0A] @ '' Full text here.''
                      @ [CHR 0x0A, CHR 0x0A] @ '' More text.'' @ [CHR 0x0A] @ ''*/'')
     \<noteq> '' Full text here.<br><br> More text.''"
  by code_simp

text \<open>
  Claim C3, as amended: on that raw comment the brief line is dropped and the lines that are
  not blank are, in this order, \<^verbatim>\<open>"ll text here."\<close> and \<^verbatim>\<open>"re text."\<close>: a line is cut at
  offset 3 of the raw line, leading blanks counted, and then trimmed. Whether a blank segment
  stands between the two is the matter of claim C4 and is left open here.
\<close>

theorem cleanup_comment_example:
  "filter (\<lambda>l. l \<noteq> [])
     (cleanup_lines (''/** @brief Does X.'' @ [CHR 0x0A, CHR 0x0A] @ '' Full text here.''
                      @ [CHR 0x0A, CHR 0x0A] @ '' More text.'' @ [CHR 0x0A] @ ''*/''))
     = [''ll text here.'', ''re text.'']"
  by code_simp

subsection \<open>Blank lines\<close>

text \<open>
  Claim C4 says that one blank line between two lines that survive is kept as one empty
  segment. On the comment \<^verbatim>\<open>"/**\n * First.\n *\n * Second.\n */"\<close> the blank line between
  the two sentences is lost: \<open>prev_line\<close> is set to the current line before it is compared.
\<close>

theorem cleanup_comment_drops_single_blank:
  "cleanup_comment (''/**'' @ [CHR 0x0A] @ '' * First.'' @ [CHR 0x0A] @ '' *'' @ [CHR 0x0A]
                      @ '' * Second.'' @ [CHR 0x0A] @ '' */'') = ''First.<br>Second.''"
  by code_simp




section \<open>Properties of link\_from\_location\<close>

text \<open>
  Claim C9: \<^verbatim>\<open>link_from_location(location, text)\<close> is the anchor
  \<^verbatim>\<open><a href="FILE:LINE:COLUMN">text</a>\<close> when the location is present and has a file with a
  name that is not empty, and is \<open>text\<close> itself otherwise; \<open>text\<close> goes into the result as it
  is.
\<close>

theorem link_from_location_anchor:
  "(location = Some l \<and> loc_file l = Some f \<and> file_name f \<noteq> [] \<longrightarrow>
      link_from_location location text =
        ''<a href='' @ [CHR 0x22] @ file_name f @ '':'' @ str_int (loc_line l) @ '':''
          @ str_int (loc_column l) @ [CHR 0x22] @ ''>'' @ text @ ''</a>'')
   \<and> (\<not> has_named_file location \<longrightarrow> link_from_location location text = text)"
  by (auto simp: link_from_location_def has_named_file_def Let_def split: option.splits)

text \<open>The example of the specification (\<^verbatim>\<open>/a/b.h\<close>, line 10, column 4, text \<^verbatim>\<open>foo\<close>), and
  the three ways a location can lack a named file.\<close>

theorem link_from_location_anchor_witness:
  "link_from_location
     (Some \<lparr>loc_file = Some \<lparr>file_name = ''/a/b.h''\<rparr>, loc_line = 10, loc_column = 4\<rparr>) ''foo''
     = ''<a href='' @ [CHR 0x22] @ ''/a/b.h:10:4'' @ [CHR 0x22] @ ''>foo</a>''
   \<and> has_named_file
         (Some \<lparr>loc_file = Some \<lparr>file_name = ''/a/b.h''\<rparr>, loc_line = 10, loc_column = 4\<rparr>)
   \<and> \<not> has_named_file None
   \<and> link_from_location None ''foo'' = ''foo''
   \<and> \<not> has_named_file (Some \<lparr>loc_file = None, loc_line = 10, loc_column = 4\<rparr>)
   \<and> link_from_location (Some \<lparr>loc_file = None, loc_line = 10, loc_column = 4\<rparr>) ''foo'' = ''foo''
   \<and> \<not> has_named_file (Some \<lparr>loc_file = Some \<lparr>file_name = []\<rparr>, loc_line = 10, loc_column = 4\<rparr>)
   \<and> link_from_location
         (Some \<lparr>loc_file = Some \<lparr>file_name = []\<rparr>, loc_line = 10, loc_column = 4\<rparr>) ''foo'' = ''foo''"
proof -
  let ?l = "\<lparr>loc_file = Some \<lparr>file_name = ''/a/b.h''\<rparr>, loc_line = 10, loc_column = 4\<rparr>"
  have d10: "str_int 10 = ''10''" and d4: "str_int 4 = ''4''" by code_simp+
  have a: "link_from_location (Some ?l) ''foo''
             = ''<a href='' @ [CHR 0x22] @ ''/a/b.h:10:4'' @ [CHR 0x22] @ ''>foo</a>''"
    using link_from_location_anchor [of "Some ?l" ?l "\<lparr>file_name = ''/a/b.h''\<rparr>" "''foo''"] d10 d4
    by simp
  have n1: "\<not> has_named_file None" by (simp add: has_named_file_def)
  have n2: "\<not> has_named_file (Some \<lparr>loc_file = None, loc_line = 10, loc_column = 4\<rparr>)"
    by (simp add: has_named_file_def)
  have n3: "\<not> has_named_file
      (Some \<lparr>loc_file = Some \<lparr>file_name = []\<rparr>, loc_line = 10, loc_column = 4\<rparr>)"
    by (simp add: has_named_file_def)
  have y: "has_named_file (Some ?l)" by (simp add: has_named_file_def)
  show ?thesis
    using a y n1 n2 n3
      link_from_location_anchor [of None undefined undefined "''foo''"]
      link_from_location_anchor
        [of "Some \<lparr>loc_file = None, loc_line = 10, loc_column = 4\<rparr>" undefined undefined "''foo''"]
      link_from_location_anchor
        [of "Some \<lparr>loc_file = Some \<lparr>file_name = []\<rparr>, loc_line = 10, loc_column = 4\<rparr>"
            undefined undefined "''foo''"]
    by simp
qed

section \<open>Properties of dir\_from\_output\<close>

lemma posix_join_up_two:
  "posix_join output [''..'', ''..'']
     = output @ (if output = [] \<or> endswith output ''/'' then [] else ''/'') @ ''../..''"
  by (simp add: startswith_def endswith_def)

text \<open>
  Claim C8: \<^verbatim>\<open>dir_from_output\<close> depends on the platform and the output only; on macOS it is
  the output with \<^verbatim>\<open>../..\<close> appended as two path components, on Windows the normalised
  output, on Linux the normalised parent directory of the output.
\<close>

theorem dir_from_output_per_platform:
  "(system e = ''Darwin'' \<longrightarrow>
      dir_from_output e output
        = Some (output @ (if output = [] \<or> endswith output ''/'' then [] else ''/'') @ ''../..''))
   \<and> (system e = ''Windows'' \<longrightarrow> dir_from_output e output = Some (p_normpath (ntpath e) output))
   \<and> (system e = ''Linux'' \<longrightarrow>
         dir_from_output e output = Some (posix_normpath (posix_dirname output)))
   \<and> (system e' = system e \<and> ntpath e' = ntpath e \<longrightarrow>
         dir_from_output e' output = dir_from_output e output)"
  using posix_join_up_two [of "output"]
  by (simp add: dir_from_output_def os_path_def posixpath_def)

theorem dir_from_output_per_platform_witness:
  "system env_darwin = ''Darwin''
   \<and> dir_from_output env_darwin ''/Library/Developer/usr/lib/clang/8.0.0''
        = Some ''/Library/Developer/usr/lib/clang/8.0.0/../..''
   \<and> dir_from_output env_darwin ''/usr/lib/clang/8.0.0/'' = Some ''/usr/lib/clang/8.0.0/../..''
   \<and> system env_windows = ''Windows''
   \<and> dir_from_output env_windows ''C:/LLVM/bin''
        = Some (p_normpath (ntpath env_windows) ''C:/LLVM/bin'')
   \<and> system env_linux = ''Linux''
   \<and> dir_from_output env_linux ''/usr/lib/llvm-3.8/lib/libclang.so'' = Some ''/usr/lib/llvm-3.8/lib''
   \<and> dir_from_output env_linux ''/usr/bin/../lib/x86_64-linux-gnu/libclang.so.1''
        = Some ''/usr/lib/x86_64-linux-gnu''
   \<and> dir_from_output env_linux ''libclang.so'' = Some ''.''"
proof -
  have d: "system env_darwin = ''Darwin''" by (simp add: env_darwin_def mk_env_def)
  have w: "system env_windows = ''Windows''" by (simp add: env_windows_def mk_env_def)
  have l: "system env_linux = ''Linux''" by (simp add: env_linux_def mk_env_def)
  have e1: "\<not> endswith ''/Library/Developer/usr/lib/clang/8.0.0'' ''/''"
    and e2: "endswith ''/usr/lib/clang/8.0.0/'' ''/''" by code_simp+
  have n1: "posix_normpath (posix_dirname ''/usr/lib/llvm-3.8/lib/libclang.so'')
              = ''/usr/lib/llvm-3.8/lib''"
    and n2: "posix_normpath (posix_dirname ''/usr/bin/../lib/x86_64-linux-gnu/libclang.so.1'')
              = ''/usr/lib/x86_64-linux-gnu''"
    and n3: "posix_normpath (posix_dirname ''libclang.so'') = ''.''" by code_simp+
  show ?thesis
    using d w l e1 e2 n1 n2 n3
      dir_from_output_per_platform [of env_darwin "''/Library/Developer/usr/lib/clang/8.0.0''" env_darwin]
      dir_from_output_per_platform [of env_darwin "''/usr/lib/clang/8.0.0/''" env_darwin]
      dir_from_output_per_platform [of env_windows "''C:/LLVM/bin''" env_windows]
      dir_from_output_per_platform [of env_linux "''/usr/lib/llvm-3.8/lib/libclang.so''" env_linux]
      dir_from_output_per_platform
        [of env_linux "''/usr/bin/../lib/x86_64-linux-gnu/libclang.so.1''" env_linux]
      dir_from_output_per_platform [of env_linux "''libclang.so''" env_linux]
    by simp
qed

section \<open>Properties of find\_libclang\_dir\<close>

subsection \<open>The tables and one candidate\<close>

lemma map_of_suffixes:
  "map_of suffixes sys =
     (if sys = ''Windows'' then Some [''.dll'', ''.lib'']
      else if sys = ''Linux'' then Some [''.so'', ''.so.1'']
      else if sys = ''Darwin'' then Some [''.dylib''] else None)"
  by (simp add: suffixes_def)

lemma map_of_possible_filenames:
  "map_of possible_filenames sys =
     (if sys = ''Windows'' then Some [''libclang'', ''clang'']
      else if sys = ''Linux'' then Some [''libclang-$version'', ''libclang'']
      else if sys = ''Darwin'' then Some [''libclang''] else None)"
  by (simp add: possible_filenames_def)

lemma candidates_supported: "candidates e \<noteq> [] \<Longrightarrow> supported e"
  by (auto simp: candidates_def supported_def map_of_suffixes split: if_splits)

lemma candidates_platform:
  "candidates e =
     (if system e = ''Windows''
      then [(''.dll'', ''libclang''), (''.dll'', ''clang''), (''.lib'', ''libclang''), (''.lib'', ''clang'')]
      else if system e = ''Linux''
      then [(''.so'', ''libclang-$version''), (''.so'', ''libclang''),
            (''.so.1'', ''libclang-$version''), (''.so.1'', ''libclang'')]
      else if system e = ''Darwin'' then [(''.dylib'', ''libclang'')] else [])"
  by (simp add: candidates_def map_of_suffixes map_of_possible_filenames)

lemma library_path_cmd_supported:
  "supported e \<Longrightarrow>
   library_path_cmd e clang_binary (version_str_of e) (snd c @ fst c)
     = Inr (candidate_file e c, candidate_cmd e clang_binary c)"
  by (auto simp: supported_def library_path_cmd_def version_str_of_def candidate_file_def
        candidate_cmd_def Let_def)

lemma dir_from_output_supported: "supported e \<Longrightarrow> dir_from_output e output \<noteq> None"
  by (auto simp: supported_def dir_from_output_def Let_def)

lemma emit_events: "emit ev st = st\<lparr>events := events st @ [ev]\<rparr>"
  by (simp add: emit_def)

text \<open>One pass through the body of the loops, by what the candidate does: its command
  raises, it is rejected, it verifies.\<close>

lemma try_candidate_failed:
  assumes "supported e" and "invocation e clang_binary c = Inl err"
  shows "try_candidate e clang_binary (version_str_of e) (fst c) (snd c) st
           = (Inl err, st\<lparr>events := events st @ attempt_events e clang_binary c\<rparr>)"
proof -
  have "check_output e (candidate_cmd e clang_binary c) = Inl err"
    using assms(2) by (simp add: invocation_def split: sum.splits)
  then show ?thesis
    using library_path_cmd_supported [OF assms(1), of clang_binary c]
    by (simp add: try_candidate_def Let_def emit_events attempt_events_def)
qed

lemma try_candidate_rejected:
  assumes "supported e" and "rejected e clang_binary c"
  shows "try_candidate e clang_binary (version_str_of e) (fst c) (snd c) st
           = (Inr None, st\<lparr>events := events st @ rejected_events e clang_binary c\<rparr>)"
proof -
  obtain raw where t: "check_output e (candidate_cmd e clang_binary c) = Inr raw"
    using assms(2) by (auto simp: rejected_def invocation_def split: sum.splits)
  have inv: "invocation e clang_binary c = Inr (strip raw)"
    using t by (simp add: invocation_def)
  have nv: "\<not> verifies e clang_binary c"
    using assms(2) inv by (simp add: rejected_def)
  show ?thesis
  proof (cases "strip raw = []")
    case True
    then show ?thesis
      using library_path_cmd_supported [OF assms(1), of clang_binary c] t
      by (simp add: try_candidate_def Let_def emit_events attempt_events_def rejected_events_def)
  next
    case False
    obtain d where d: "dir_from_output e (strip raw) = Some d"
      using dir_from_output_supported [OF assms(1)] by blast
    have cd: "candidate_dir e clang_binary c = Some d"
      using inv False d by (simp add: candidate_dir_def)
    have "\<not> (path_isdir e d \<and> path_exists e (p_join (os_path e) d [candidate_file e c]))"
      using nv cd by (simp add: verifies_def candidate_path_def)
    then show ?thesis
      using library_path_cmd_supported [OF assms(1), of clang_binary c] t False d
      by (auto simp: try_candidate_def Let_def emit_events attempt_events_def rejected_events_def)
  qed
qed

lemma verifies_dir: "verifies e clang_binary c \<Longrightarrow> candidate_dir e clang_binary c \<noteq> None"
  by (auto simp: verifies_def split: option.splits)

lemma try_candidate_verified:
  assumes "supported e" and "verifies e clang_binary c"
  shows "try_candidate e clang_binary (version_str_of e) (fst c) (snd c) st
           = (Inr (candidate_dir e clang_binary c),
              st\<lparr>libclang_name := Some (candidate_file e c),
                 events := events st @ attempt_events e clang_binary c
                              @ [FoundLibrary (candidate_path e clang_binary c)]\<rparr>)"
proof -
  obtain d where cd: "candidate_dir e clang_binary c = Some d"
    using verifies_dir [OF assms(2)] by blast
  then obtain out where inv: "invocation e clang_binary c = Inr out"
    and ne: "out \<noteq> []" and d: "dir_from_output e out = Some d"
    by (auto simp: candidate_dir_def split: sum.splits if_splits)
  obtain raw where t: "check_output e (candidate_cmd e clang_binary c) = Inr raw"
    and s: "strip raw = out"
    using inv by (auto simp: invocation_def split: sum.splits)
  have ok: "path_isdir e d" "path_exists e (p_join (os_path e) d [candidate_file e c])"
    using assms(2) cd by (simp_all add: verifies_def candidate_path_def)
  show ?thesis
    using library_path_cmd_supported [OF assms(1), of clang_binary c] t s ne d ok cd
    by (simp add: try_candidate_def Let_def emit_events attempt_events_def candidate_path_def)
qed

subsection \<open>The two loops are one loop over the pairs\<close>

lemma names_loop_pairs:
  "names_loop e clang_binary (version_str_of e) suffix names st
     = search_pairs e clang_binary (map (Pair suffix) names) st"
  by (induction names arbitrary: st) (simp_all split: prod.splits sum.splits option.splits)

lemma search_pairs_append:
  "search_pairs e clang_binary (xs @ ys) st =
     (case search_pairs e clang_binary xs st of
        (Inl err, st') \<Rightarrow> (Inl err, st')
      | (Inr (Some libclang_dir), st') \<Rightarrow> (Inr (Some libclang_dir), st')
      | (Inr None, st') \<Rightarrow> search_pairs e clang_binary ys st')"
  by (induction xs arbitrary: st) (simp_all split: prod.splits sum.splits option.splits)

lemma suffixes_loop_pairs:
  "map_of possible_filenames sys = Some names \<Longrightarrow>
   suffixes_loop e clang_binary (version_str_of e) sys suffix_list st
     = search_pairs e clang_binary (List.product suffix_list names) st"
proof (induction suffix_list arbitrary: st)
  case Nil
  then show ?case by simp
next
  case (Cons suffix rest)
  show ?case
    using Cons.prems Cons.IH [OF Cons.prems]
    by (simp add: names_loop_pairs search_pairs_append
          split: prod.splits sum.splits option.splits)
qed

lemma supported_tables:
  "supported e \<Longrightarrow>
   \<exists>suffix_list names. map_of suffixes (system e) = Some suffix_list
      \<and> map_of possible_filenames (system e) = Some names
      \<and> candidates e = List.product suffix_list names"
  by (auto simp: supported_def candidates_def map_of_suffixes map_of_possible_filenames)

lemma unsupported_tables: "\<not> supported e \<Longrightarrow> map_of suffixes (system e) = None"
  by (simp add: supported_def map_of_suffixes)

lemma find_libclang_dir_hint:
  "user_hint_dir e libclang_path = Some libclang_dir \<Longrightarrow>
   find_libclang_dir e clang_binary libclang_path st
     = (Inr (Some libclang_dir),
        st\<lparr>libclang_name := Some (p_basename (os_path e) libclang_path),
           events := events st @ [UsingUserProvided libclang_path]\<rparr>)"
  by (simp add: find_libclang_dir_def emit_events)

lemma find_libclang_dir_unsupported:
  "user_hint_dir e libclang_path = None \<Longrightarrow> \<not> supported e \<Longrightarrow>
   find_libclang_dir e clang_binary libclang_path st = (Inl (KeyError (system e)), st)"
  by (simp add: find_libclang_dir_def unsupported_tables)

lemma find_libclang_dir_search:
  assumes "user_hint_dir e libclang_path = None" and "supported e"
  shows "find_libclang_dir e clang_binary libclang_path st =
     (case search_pairs e clang_binary (candidates e) st of
        (Inl err, st') \<Rightarrow> (Inl err, st')
      | (Inr (Some libclang_dir), st') \<Rightarrow> (Inr (Some libclang_dir), st')
      | (Inr None, st') \<Rightarrow> (Inr None, st'\<lparr>events := events st' @ [NoLibclangFound]\<rparr>))"
proof -
  obtain suffix_list names where s: "map_of suffixes (system e) = Some suffix_list"
    and n: "map_of possible_filenames (system e) = Some names"
    and c: "candidates e = List.product suffix_list names"
    using supported_tables [OF assms(2)] by blast
  show ?thesis
    using assms(1) s c suffixes_loop_pairs [OF n, of e clang_binary suffix_list st]
    by (simp add: find_libclang_dir_def Let_def emit_events
          split: prod.splits sum.splits option.splits)
qed

lemma search_pairs_rejected:
  "supported e \<Longrightarrow> \<forall>c \<in> set pre. rejected e clang_binary c \<Longrightarrow>
   search_pairs e clang_binary pre st
     = (Inr None, st\<lparr>events := events st @ concat (map (rejected_events e clang_binary) pre)\<rparr>)"
proof (induction pre arbitrary: st)
  case Nil
  then show ?case by simp
next
  case (Cons c pre)
  have r: "rejected e clang_binary c" using Cons.prems(2) by simp
  have rest: "\<forall>c \<in> set pre. rejected e clang_binary c" using Cons.prems(2) by simp
  show ?case
    using try_candidate_rejected [OF Cons.prems(1) r, of st]
      Cons.IH [OF Cons.prems(1) rest]
    by simp
qed

subsection \<open>The order of the search\<close>

text \<open>
  Claim C6, as written: when exactly one pair verifies, every pair before it is queried
  first and the search returns the directory of that pair. Where the command of an earlier
  pair raises, the search ends there with the exception and returns no directory.
\<close>

theorem find_libclang_dir_order_counterexample:
  "rejected env_gap ''clang++'' (''.so'', ''libclang-$version'')
   \<and> \<not> verifies env_gap ''clang++'' (''.so'', ''libclang'')
   \<and> verifies env_gap ''clang++'' (''.so.1'', ''libclang-$version'')
   \<and> \<not> verifies env_gap ''clang++'' (''.so.1'', ''libclang'')
   \<and> fst (find_libclang_dir env_gap ''clang++'' [] st0) = Inl (CalledProcessError 1)
   \<and> libclang_name (snd (find_libclang_dir env_gap ''clang++'' [] st0)) = None"
  by code_simp

text \<open>
  Claim C6, as amended: the candidates are the pairs of the platform's two tables, suffixes
  in the outer loop and names in the inner one. When the user's hint does not settle the
  call, every pair before the pair \<open>c\<close> is rejected (its command returns and it does not
  verify) and \<open>c\<close> verifies, then exactly the pairs up to \<open>c\<close> are queried, in this order, the
  search returns the directory of \<open>c\<close> and records its file name, and no later pair is
  queried.
\<close>

theorem find_libclang_dir_first_verified:
  assumes "user_hint_dir e libclang_path = None"
    and "candidates e = pre @ c # post"
    and "\<forall>p \<in> set pre. rejected e clang_binary p"
    and "verifies e clang_binary c"
  shows "(\<exists>suffix_list names. map_of suffixes (system e) = Some suffix_list
            \<and> map_of possible_filenames (system e) = Some names
            \<and> candidates e = List.product suffix_list names)
         \<and> candidate_dir e clang_binary c \<noteq> None
         \<and> find_libclang_dir e clang_binary libclang_path st =
             (Inr (candidate_dir e clang_binary c),
              st\<lparr>libclang_name := Some (candidate_file e c),
                 events := events st @ concat (map (rejected_events e clang_binary) pre)
                             @ attempt_events e clang_binary c
                             @ [FoundLibrary (candidate_path e clang_binary c)]\<rparr>)"
proof -
  have sup: "supported e" using candidates_supported [of e] assms(2) by simp
  obtain d where d: "candidate_dir e clang_binary c = Some d"
    using verifies_dir [OF assms(4)] by blast
  have "search_pairs e clang_binary (pre @ c # post) st =
          (Inr (Some d),
           st\<lparr>libclang_name := Some (candidate_file e c),
              events := events st @ concat (map (rejected_events e clang_binary) pre)
                          @ attempt_events e clang_binary c
                          @ [FoundLibrary (candidate_path e clang_binary c)]\<rparr>)"
    using search_pairs_rejected [OF sup assms(3), of st]
      try_candidate_verified [OF sup assms(4)] d
    by (simp add: search_pairs_append)
  then show ?thesis
    using find_libclang_dir_search [OF assms(1) sup, of clang_binary st] assms(2) d
      supported_tables [OF sup]
    by simp
qed

theorem find_libclang_dir_first_verified_witness:
  "user_hint_dir env_deep [] = None
   \<and> candidates env_deep
        = [(''.so'', ''libclang-$version''), (''.so'', ''libclang'')]
            @ (''.so.1'', ''libclang-$version'') # [(''.so.1'', ''libclang'')]
   \<and> rejected env_deep ''clang++'' (''.so'', ''libclang-$version'')
   \<and> rejected env_deep ''clang++'' (''.so'', ''libclang'')
   \<and> verifies env_deep ''clang++'' (''.so.1'', ''libclang-$version'')
   \<and> find_libclang_dir env_deep ''clang++'' [] st0 =
        (Inr (Some ''/usr/lib/x86_64-linux-gnu''),
         \<lparr>libclang_name = Some ''libclang-3.8.so.1'',
          events = [Searching ''libclang-$version.so'',
                    Invoked (print_file_name ''libclang-3.8.so''),
                    CouldNotFind ''libclang-3.8.so'',
                    Searching ''libclang.so'',
                    Invoked (print_file_name ''libclang.so''),
                    CouldNotFind ''libclang.so'',
                    Searching ''libclang-$version.so.1'',
                    Invoked (print_file_name ''libclang-3.8.so.1''),
                    FoundLibrary ''/usr/lib/x86_64-linux-gnu/libclang-3.8.so.1'']\<rparr>)"
proof -
  let ?pre = "[(''.so'', ''libclang-$version''), (''.so'', ''libclang'')]"
  let ?c = "(''.so.1'', ''libclang-$version'')"
  let ?post = "[(''.so.1'', ''libclang'')]"
  have h1: "user_hint_dir env_deep [] = None" by (simp add: user_hint_dir_def)
  have h2: "candidates env_deep = ?pre @ ?c # ?post" by code_simp
  have r1: "rejected env_deep ''clang++'' (''.so'', ''libclang-$version'')" by code_simp
  have r2: "rejected env_deep ''clang++'' (''.so'', ''libclang'')" by code_simp
  have h3: "\<forall>p \<in> set ?pre. rejected env_deep ''clang++'' p" using r1 r2 by simp
  have h4: "verifies env_deep ''clang++'' ?c" by code_simp
  have v1: "candidate_dir env_deep ''clang++'' ?c = Some ''/usr/lib/x86_64-linux-gnu''"
    by code_simp
  have v2: "candidate_file env_deep ?c = ''libclang-3.8.so.1''" by code_simp
  have v3: "candidate_path env_deep ''clang++'' ?c = ''/usr/lib/x86_64-linux-gnu/libclang-3.8.so.1''"
    by code_simp
  have v4: "attempt_events env_deep ''clang++'' ?c
              = [Searching ''libclang-$version.so.1'', Invoked (print_file_name ''libclang-3.8.so.1'')]"
    by code_simp
  have v5: "concat (map (rejected_events env_deep ''clang++'') ?pre)
              = [Searching ''libclang-$version.so'',
                 Invoked (print_file_name ''libclang-3.8.so''),
                 CouldNotFind ''libclang-3.8.so'',
                 Searching ''libclang.so'',
                 Invoked (print_file_name ''libclang.so''),
                 CouldNotFind ''libclang.so'']"
    by code_simp
  show ?thesis
    using find_libclang_dir_first_verified [OF h1 h2 h3 h4, of st0] h1 h2 r1 r2 h4
    unfolding v1 v2 v3 v4 v5
    by (simp add: st0_def)
qed

subsection \<open>A command that raises\<close>

text \<open>
  Claim C1, as written: a candidate whose command fails counts as one with empty output, and
  a later candidate can still succeed. The first command fails here and the second candidate
  verifies, yet the call ends with the exception of the first.
\<close>

theorem find_libclang_dir_error_counterexample:
  "verifies env_raises ''clang++'' (''.so'', ''libclang'')
   \<and> find_libclang_dir env_raises ''clang++'' [] st0 =
        (Inl (CalledProcessError 1),
         \<lparr>libclang_name = None,
          events = [Searching ''libclang-$version.so'',
                    Invoked (print_file_name ''libclang-3.8.so'')]\<rparr>)"
  by code_simp

text \<open>
  Claim C1, as amended: a candidate whose command returns and that does not verify is logged
  with a warning and the search goes on; when the command of a candidate raises, the
  exception leaves \<^verbatim>\<open>find_libclang_dir\<close> at that candidate: no warning is logged for it, no
  later candidate is tried, and \<open>libclang_name\<close> is as it was.
\<close>

theorem find_libclang_dir_invocation_error:
  assumes "user_hint_dir e libclang_path = None"
    and "candidates e = pre @ c # post"
    and "\<forall>p \<in> set pre. rejected e clang_binary p"
    and "invocation e clang_binary c = Inl err"
  shows "find_libclang_dir e clang_binary libclang_path st =
           (Inl err,
            st\<lparr>events := events st @ concat (map (rejected_events e clang_binary) pre)
                            @ attempt_events e clang_binary c\<rparr>)"
proof -
  have sup: "supported e" using candidates_supported [of e] assms(2) by simp
  have "search_pairs e clang_binary (pre @ c # post) st =
          (Inl err,
           st\<lparr>events := events st @ concat (map (rejected_events e clang_binary) pre)
                           @ attempt_events e clang_binary c\<rparr>)"
    using search_pairs_rejected [OF sup assms(3), of st]
      try_candidate_failed [OF sup assms(4)]
    by (simp add: search_pairs_append)
  then show ?thesis
    using find_libclang_dir_search [OF assms(1) sup, of clang_binary st] assms(2)
    by simp
qed

theorem find_libclang_dir_invocation_error_witness:
  "user_hint_dir env_gap [] = None
   \<and> candidates env_gap
        = [(''.so'', ''libclang-$version'')] @ (''.so'', ''libclang'')
            # [(''.so.1'', ''libclang-$version''), (''.so.1'', ''libclang'')]
   \<and> rejected env_gap ''clang++'' (''.so'', ''libclang-$version'')
   \<and> invocation env_gap ''clang++'' (''.so'', ''libclang'') = Inl (CalledProcessError 1)
   \<and> find_libclang_dir env_gap ''clang++'' [] st0 =
        (Inl (CalledProcessError 1),
         \<lparr>libclang_name = None,
          events = [Searching ''libclang-$version.so'',
                    Invoked (print_file_name ''libclang-3.8.so''),
                    CouldNotFind ''libclang-3.8.so'',
                    Searching ''libclang.so'',
                    Invoked (print_file_name ''libclang.so'')]\<rparr>)"
proof -
  let ?pre = "[(''.so'', ''libclang-$version'')]"
  let ?c = "(''.so'', ''libclang'')"
  let ?post = "[(''.so.1'', ''libclang-$version''), (''.so.1'', ''libclang'')]"
  have h1: "user_hint_dir env_gap [] = None" by (simp add: user_hint_dir_def)
  have h2: "candidates env_gap = ?pre @ ?c # ?post" by code_simp
  have r1: "rejected env_gap ''clang++'' (''.so'', ''libclang-$version'')" by code_simp
  have h3: "\<forall>p \<in> set ?pre. rejected env_gap ''clang++'' p" using r1 by simp
  have h4: "invocation env_gap ''clang++'' ?c = Inl (CalledProcessError 1)" by code_simp
  have v4: "attempt_events env_gap ''clang++'' ?c
              = [Searching ''libclang.so'', Invoked (print_file_name ''libclang.so'')]"
    by code_simp
  have v5: "concat (map (rejected_events env_gap ''clang++'') ?pre)
              = [Searching ''libclang-$version.so'',
                 Invoked (print_file_name ''libclang-3.8.so''),
                 CouldNotFind ''libclang-3.8.so'']"
    by code_simp
  show ?thesis
    using find_libclang_dir_invocation_error [OF h1 h2 h3 h4, of st0] h1 h2 r1 h4
    unfolding v4 v5
    by (simp add: st0_def)
qed

subsection \<open>No candidate verifies\<close>

text \<open>
  Claim C7, as written: when no candidate verifies, the result is \<open>None\<close>. Without the
  compiler executable no candidate verifies, and the call raises.
\<close>

theorem find_libclang_dir_exhausted_counterexample:
  "candidates env_no_compiler = [(''.dylib'', ''libclang'')]
   \<and> \<not> verifies env_no_compiler ''clang++'' (''.dylib'', ''libclang'')
   \<and> find_libclang_dir env_no_compiler ''clang++'' [] st0 =
        (Inl FileNotFoundError,
         \<lparr>libclang_name = None,
          events = [Searching ''libclang.dylib'',
                    Invoked [''clang++'', ''-print-file-name='']]\<rparr>)"
  by code_simp

text \<open>
  Claim C7, as amended: when the user's hint does not settle the call, the platform is one of
  the three and every candidate is rejected (its command returns and it does not verify),
  the result is \<open>None\<close>, after one warning per candidate and one error record, and
  \<open>libclang_name\<close> is as it was.
\<close>

theorem find_libclang_dir_exhausted:
  assumes "user_hint_dir e libclang_path = None"
    and "candidates e \<noteq> []"
    and "\<forall>c \<in> set (candidates e). rejected e clang_binary c"
  shows "find_libclang_dir e clang_binary libclang_path st =
           (Inr None,
            st\<lparr>events := events st
                            @ concat (map (rejected_events e clang_binary) (candidates e))
                            @ [NoLibclangFound]\<rparr>)
         \<and> libclang_name (snd (find_libclang_dir e clang_binary libclang_path st))
             = libclang_name st"
proof -
  have sup: "supported e" using candidates_supported [OF assms(2)] .
  show ?thesis
    using find_libclang_dir_search [OF assms(1) sup, of clang_binary st]
      search_pairs_rejected [OF sup assms(3), of st]
    by simp
qed

theorem find_libclang_dir_exhausted_witness:
  "user_hint_dir env_silent [] = None
   \<and> candidates env_silent = [(''.dylib'', ''libclang'')]
   \<and> rejected env_silent ''clang++'' (''.dylib'', ''libclang'')
   \<and> find_libclang_dir env_silent ''clang++'' [] st0 =
        (Inr None,
         \<lparr>libclang_name = None,
          events = [Searching ''libclang.dylib'',
                    Invoked [''clang++'', ''-print-file-name=''],
                    CouldNotFind ''libclang.dylib'',
                    NoLibclangFound]\<rparr>)
   \<and> libclang_name (snd (find_libclang_dir env_silent ''clang++'' [] st0)) = None"
proof -
  have h1: "user_hint_dir env_silent [] = None" by (simp add: user_hint_dir_def)
  have c: "candidates env_silent = [(''.dylib'', ''libclang'')]" by code_simp
  have h2: "candidates env_silent \<noteq> []" using c by simp
  have r1: "rejected env_silent ''clang++'' (''.dylib'', ''libclang'')" by code_simp
  have h3: "\<forall>c \<in> set (candidates env_silent). rejected env_silent ''clang++'' c"
    using r1 c by simp
  have v5: "rejected_events env_silent ''clang++'' (''.dylib'', ''libclang'')
              = [Searching ''libclang.dylib'',
                 Invoked [''clang++'', ''-print-file-name=''],
                 CouldNotFind ''libclang.dylib'']"
    by code_simp
  show ?thesis
    using find_libclang_dir_exhausted [OF h1 h2 h3, of st0] h1 c r1 v5
    by (simp add: st0_def)
qed

subsection \<open>The user's hint\<close>

text \<open>
  Claim C2, as written: for every hint that is not empty and names an existing file, the
  call returns the parent directory of the file and runs no compiler. The hint
  \<^verbatim>\<open>libclang.so\<close> names an existing file, its \<^verbatim>\<open>dirname\<close> is the empty string, which the test
  \<^verbatim>\<open>if libclang_dir:\<close> rejects, and the search runs the compiler.
\<close>

theorem find_libclang_dir_bare_hint_counterexample:
  "path_exists env_cwd ''libclang.so''
   \<and> find_libclang_dir env_cwd ''clang++'' ''libclang.so'' st0 =
        (Inl FileNotFoundError,
         \<lparr>libclang_name = None,
          events = [Searching ''libclang-$version.so'',
                    Invoked (print_file_name ''libclang-3.8.so'')]\<rparr>)"
  by code_simp

text \<open>
  Claim C2, as amended: for every hint that is not empty, names an existing file and has a
  \<^verbatim>\<open>dirname\<close> that is not empty, on every platform, the call returns that \<^verbatim>\<open>dirname\<close>, records
  the \<^verbatim>\<open>basename\<close> of the hint as \<open>libclang_name\<close>, logs one record and runs no command.
\<close>

theorem find_libclang_dir_user_hint:
  assumes "libclang_path \<noteq> []"
    and "path_exists e libclang_path"
    and "p_dirname (os_path e) libclang_path \<noteq> []"
  shows "find_libclang_dir e clang_binary libclang_path st =
           (Inr (Some (p_dirname (os_path e) libclang_path)),
            st\<lparr>libclang_name := Some (p_basename (os_path e) libclang_path),
               events := events st @ [UsingUserProvided libclang_path]\<rparr>)"
proof -
  have "user_hint_dir e libclang_path = Some (p_dirname (os_path e) libclang_path)"
    using assms by (simp add: user_hint_dir_def try_load_from_user_hint_def)
  then show ?thesis by (rule find_libclang_dir_hint)
qed

theorem find_libclang_dir_user_hint_witness:
  "system env_bsd = ''FreeBSD''
   \<and> path_exists env_bsd ''/usr/local/llvm/lib/libclang.so''
   \<and> p_dirname (os_path env_bsd) ''/usr/local/llvm/lib/libclang.so'' = ''/usr/local/llvm/lib''
   \<and> find_libclang_dir env_bsd ''clang++'' ''/usr/local/llvm/lib/libclang.so'' st0 =
        (Inr (Some ''/usr/local/llvm/lib''),
         \<lparr>libclang_name = Some ''libclang.so'',
          events = [UsingUserProvided ''/usr/local/llvm/lib/libclang.so'']\<rparr>)"
proof -
  let ?p = "''/usr/local/llvm/lib/libclang.so''"
  have s: "system env_bsd = ''FreeBSD''" by code_simp
  have h1: "?p \<noteq> []" by simp
  have h2: "path_exists env_bsd ?p" by code_simp
  have d: "p_dirname (os_path env_bsd) ?p = ''/usr/local/llvm/lib''" by code_simp
  have b: "p_basename (os_path env_bsd) ?p = ''libclang.so''" by code_simp
  have h3: "p_dirname (os_path env_bsd) ?p \<noteq> []" unfolding d by simp
  show ?thesis
    using find_libclang_dir_user_hint [OF h1 h2 h3, of "''clang++''" st0] s h2
    unfolding d b
    by (simp add: st0_def)
qed

subsection \<open>The cached file name\<close>

lemma candidate_trichotomy:
  "(\<exists>err. invocation e clang_binary c = Inl err) \<or> rejected e clang_binary c
     \<or> verifies e clang_binary c"
  by (cases "invocation e clang_binary c") (auto simp: rejected_def)

lemma search_pairs_outcome:
  "supported e \<Longrightarrow> search_pairs e clang_binary cs st = (r, st') \<Longrightarrow>
   (case r of
      Inl err \<Rightarrow> libclang_name st' = libclang_name st
    | Inr None \<Rightarrow> libclang_name st' = libclang_name st
    | Inr (Some d) \<Rightarrow>
        (\<exists>c \<in> set cs. verifies e clang_binary c \<and> candidate_dir e clang_binary c = Some d
           \<and> libclang_name st' = Some (candidate_file e c)))"
proof (induction cs arbitrary: st)
  case Nil
  then show ?case by auto
next
  case (Cons c cs)
  consider (failed) err where "invocation e clang_binary c = Inl err"
    | (rejected) "rejected e clang_binary c"
    | (verified) "verifies e clang_binary c"
    using candidate_trichotomy [of e clang_binary c] by blast
  then show ?case
  proof cases
    case failed
    show ?thesis
      using Cons.prems(2) try_candidate_failed [OF Cons.prems(1) failed, of st]
      by auto
  next
    case rejected
    have "search_pairs e clang_binary cs
            (st\<lparr>events := events st @ rejected_events e clang_binary c\<rparr>) = (r, st')"
      using Cons.prems(2) try_candidate_rejected [OF Cons.prems(1) rejected, of st]
      by simp
    from Cons.IH [OF Cons.prems(1) this]
    show ?thesis by (auto split: sum.splits option.splits)
  next
    case verified
    obtain d where d: "candidate_dir e clang_binary c = Some d"
      using verifies_dir [OF verified] by blast
    show ?thesis
      using Cons.prems(2) try_candidate_verified [OF Cons.prems(1) verified, of st] d verified
      by auto
  qed
qed

text \<open>
  Claim C5, as written: once a call has set \<open>libclang_name\<close>, no later call writes another
  value. A second call with another hint does.
\<close>

theorem libclang_name_overwritten_counterexample:
  "fst (find_libclang_dir env_two ''clang++'' ''/opt/a/libclang.so'' st0) = Inr (Some ''/opt/a'')
   \<and> libclang_name (snd (find_libclang_dir env_two ''clang++'' ''/opt/a/libclang.so'' st0))
        = Some ''libclang.so''
   \<and> fst (find_libclang_dir env_two ''clang++'' ''/opt/b/libclang.so.1''
             (snd (find_libclang_dir env_two ''clang++'' ''/opt/a/libclang.so'' st0)))
        = Inr (Some ''/opt/b'')
   \<and> libclang_name (snd (find_libclang_dir env_two ''clang++'' ''/opt/b/libclang.so.1''
             (snd (find_libclang_dir env_two ''clang++'' ''/opt/a/libclang.so'' st0))))
        = Some ''libclang.so.1''"
  by code_simp

text \<open>
  Claim C5, as amended: a call that returns a directory sets \<open>libclang_name\<close> to the file name
  this call resolved (the \<^verbatim>\<open>basename\<close> of the hint, or the file of the candidate that
  verified), whatever it held before; a call that returns \<open>None\<close> or raises leaves it as it
  was.
\<close>

theorem libclang_name_after_call:
  "(case find_libclang_dir e clang_binary libclang_path st of
      (Inl err, st') \<Rightarrow> libclang_name st' = libclang_name st
    | (Inr None, st') \<Rightarrow> libclang_name st' = libclang_name st
    | (Inr (Some d), st') \<Rightarrow>
        (user_hint_dir e libclang_path = Some d
           \<and> libclang_name st' = Some (p_basename (os_path e) libclang_path))
        \<or> (user_hint_dir e libclang_path = None
             \<and> (\<exists>c \<in> set (candidates e). verifies e clang_binary c
                    \<and> candidate_dir e clang_binary c = Some d
                    \<and> libclang_name st' = Some (candidate_file e c))))"
proof (cases "user_hint_dir e libclang_path")
  case (Some d)
  then show ?thesis using find_libclang_dir_hint [OF Some, of clang_binary st] by simp
next
  case None
  show ?thesis
  proof (cases "supported e")
    case False
    then show ?thesis
      using find_libclang_dir_unsupported [OF None False, of clang_binary st] by simp
  next
    case True
    obtain r st' where s: "search_pairs e clang_binary (candidates e) st = (r, st')"
      by (cases "search_pairs e clang_binary (candidates e) st") blast
    show ?thesis
      using find_libclang_dir_search [OF None True, of clang_binary st] s None
        search_pairs_outcome [OF True s]
      by (auto split: sum.splits option.splits)
  qed
qed

theorem libclang_name_after_call_witness:
  "find_libclang_dir env_two ''clang++'' ''/opt/b/libclang.so.1''
       \<lparr>libclang_name = Some ''libclang.so'', events = []\<rparr>
     = (Inr (Some ''/opt/b''),
        \<lparr>libclang_name = Some ''libclang.so.1'',
         events = [UsingUserProvided ''/opt/b/libclang.so.1'']\<rparr>)
   \<and> user_hint_dir env_two ''/opt/b/libclang.so.1'' = Some ''/opt/b''
   \<and> p_basename (os_path env_two) ''/opt/b/libclang.so.1'' = ''libclang.so.1''
   \<and> find_libclang_dir env_no_compiler ''clang++'' []
       \<lparr>libclang_name = Some ''libclang.so'', events = []\<rparr>
     = (Inl FileNotFoundError,
        \<lparr>libclang_name = Some ''libclang.so'',
         events = [Searching ''libclang.dylib'', Invoked [''clang++'', ''-print-file-name='']]\<rparr>)"
proof -
  let ?st = "\<lparr>libclang_name = Some ''libclang.so'', events = []\<rparr>"
  have a: "find_libclang_dir env_two ''clang++'' ''/opt/b/libclang.so.1'' ?st
     = (Inr (Some ''/opt/b''),
        \<lparr>libclang_name = Some ''libclang.so.1'',
         events = [UsingUserProvided ''/opt/b/libclang.so.1'']\<rparr>)" by code_simp
  have b: "user_hint_dir env_two ''/opt/b/libclang.so.1'' = Some ''/opt/b''" by code_simp
  have c: "p_basename (os_path env_two) ''/opt/b/libclang.so.1'' = ''libclang.so.1''"
    by code_simp
  have d: "find_libclang_dir env_no_compiler ''clang++'' [] ?st
     = (Inl FileNotFoundError,
        \<lparr>libclang_name = Some ''libclang.so'',
         events = [Searching ''libclang.dylib'', Invoked [''clang++'', ''-print-file-name='']]\<rparr>)"
    by code_simp
  show ?thesis
    using libclang_name_after_call
        [where e = env_two and clang_binary = "''clang++''"
           and libclang_path = "''/opt/b/libclang.so.1''" and st = ?st]
      a b c d
    by simp
qed

end
